theory Spec2Isabelle
  imports Main "HOL-Library.Sublist"
begin

section \<open>JavaScript literals\<close>

text \<open>
  The configuration files of the repository are JavaScript object literals and JSON
  documents. They are transcribed as values of one datatype: an object is the list of its
  \<open>key: value\<close> pairs in source order, a regular expression literal \<open>/src/flags\<close> keeps
  its source text and flags, \<open>new C(args)\<close> and \<open>f(args)\<close> keep the name and the arguments.
\<close>

datatype js =
    Undefined
  | Bool bool
  | Num int
  | Str string
  | Regex string string
  | Ident string
  | Arr "js list"
  | Obj "(string \<times> js) list"
  | Call string "js list"
  | New string "js list"

text \<open>Property lookup \<open>obj.k\<close>: a key written twice in a literal keeps its last value;
  a missing key, or a value that is no object, gives nothing.\<close>

fun get :: "string \<Rightarrow> js \<Rightarrow> js option" where
  "get k (Obj kvs) = map_of (rev kvs) k"
| "get k _ = None"

definition specifies :: "js \<Rightarrow> string \<Rightarrow> bool" where
  "specifies obj k = (get k obj \<noteq> None)"


definition elements :: "js option \<Rightarrow> js list" where
  "elements v = (case v of Some (Arr xs) \<Rightarrow> xs | _ \<Rightarrow> [])"

definition backslash :: char where
  "backslash = CHR 0x5C"


section \<open>Bundler configurations\<close>


text \<open>\<^verbatim>\<open>webpack/loaders-optimizations/webpack.config.js\<close>, the value of \<open>module.exports\<close>.\<close>

definition loaders_optimizations_config :: js where
  "loaders_optimizations_config = Obj [
     (''mode'', Str ''none''),
     (''entry'', Obj [
        (''script'', Obj [(''import'', Str ''./src/script.js''), (''dependOn'', Str ''shared'')]),
        (''page2'', Obj [(''import'', Str ''./src/page2.js''), (''dependOn'', Str ''shared'')]),
        (''shared'', Str ''lodash/join'')]),
     (''output'', Obj [
        (''filename'', Str ''[name].js''),
        (''path'', Call ''path.resolve'' [Ident ''__dirname'', Str ''dist'']),
        (''clean'', Bool True)]),
     (''plugins'', Arr [
        New ''HtmlWebpackPlugin'' [Obj [
          (''filename'', Str ''index.html''),
          (''template'', Str ''./src/index.html''),
          (''chunks'', Arr [Str ''script'', Str ''shared''])]],
        New ''HtmlWebpackPlugin'' [Obj [
          (''filename'', Str ''page2/index.html''),
          (''template'', Str ''./src/index.html''),
          (''chunks'', Arr [Str ''page2'', Str ''shared''])]],
        New ''BundleAnalyzerPlugin'' []]),
     (''module'', Obj [
        (''rules'', Arr [
           Obj [(''test'', Regex (backslash # ''.css$'') ''i''),
                (''use'', Arr [Str ''style-loader'', Str ''css-loader''])],
           Obj [(''test'', Regex (backslash # ''.(png|svg|jpg|jpeg|gif)$'') ''i''),
                (''type'', Str ''asset/resource'')]])]),
     (''optimization'', Obj [
        (''usedExports'', Bool True),
        (''minimize'', Bool True)])]"




definition plugin_list :: "js \<Rightarrow> js list" where
  "plugin_list cfg = elements (get ''plugins'' cfg)"






text \<open>The entry object of a multi-entry configuration: its keys, the \<open>dependOn\<close> value of
  each entry that has one, and the chunk names the HTML plugin instances list.\<close>

definition entry_keys :: "js \<Rightarrow> string list" where
  "entry_keys cfg = (case get ''entry'' cfg of Some (Obj kvs) \<Rightarrow> map fst kvs | _ \<Rightarrow> [])"

definition depends :: "js \<Rightarrow> string list" where
  "depends e = (case get ''dependOn'' e of
      Some (Str d) \<Rightarrow> [d]
    | Some (Arr ds) \<Rightarrow> concat (map (\<lambda>d. case d of Str s \<Rightarrow> [s] | _ \<Rightarrow> []) ds)
    | _ \<Rightarrow> [])"

definition entry_dependencies :: "js \<Rightarrow> (string \<times> string) list" where
  "entry_dependencies cfg = (case get ''entry'' cfg of
      Some (Obj kvs) \<Rightarrow> concat (map (\<lambda>(k, e). map (Pair k) (depends e)) kvs)
    | _ \<Rightarrow> [])"

fun plugin_chunks :: "js \<Rightarrow> string list" where
  "plugin_chunks (New name [opts]) =
     (if name = ''HtmlWebpackPlugin''
      then concat (map (\<lambda>c. case c of Str s \<Rightarrow> [s] | _ \<Rightarrow> []) (elements (get ''chunks'' opts)))
      else [])"
| "plugin_chunks _ = []"

definition html_chunks :: "js \<Rightarrow> string list" where
  "html_chunks cfg = concat (map plugin_chunks (plugin_list cfg))"


section \<open>Formatter configuration\<close>

text \<open>\<^verbatim>\<open>.prettierrc.json\<close> and \<^verbatim>\<open>.prettierignore\<close> as the formatter tutorial gives them
  (\<^verbatim>\<open>prettier/README.md\<close>). The ignore file is its text; every non-empty line of it is
  a pattern.\<close>

definition prettierrc :: js where
  "prettierrc = Obj [
     (''trailingComma'', Str ''es5''),
     (''tabWidth'', Num 2),
     (''semi'', Bool True),
     (''singleQuote'', Bool True)]"

definition newline :: char where
  "newline = CHR 0x0A"

definition prettierignore :: string where
  "prettierignore = ''build'' @ [newline] @ ''*.css'' @ [newline]"

fun split_lines :: "string \<Rightarrow> string \<Rightarrow> string list" where
  "split_lines acc [] = (if acc = [] then [] else [rev acc])"
| "split_lines acc (c # cs) =
     (if c = newline then rev acc # split_lines [] cs else split_lines (c # acc) cs)"

definition ignored_patterns :: "string \<Rightarrow> string list" where
  "ignored_patterns text = filter (\<lambda>l. l \<noteq> []) (split_lines [] text)"

definition option_names :: "js \<Rightarrow> string list" where
  "option_names cfg = (case cfg of Obj kvs \<Rightarrow> map fst kvs | _ \<Rightarrow> [])"


section \<open>The like button\<close>

text \<open>
  \<^verbatim>\<open>react-and-jsx/script.jsx\<close>. A JSX element is its type (a host tag or a component), its
  attributes in source order and its children. An arrow function given as an event handler
  is the list of the calls its body makes; the only such call in the script is the state
  setter \<open>setLiked\<close>. Text is kept as the bytes of the source file, so the thumbs-up sign
  (U+1F44D) is its four UTF-8 bytes.
\<close>

datatype call = setLiked bool

datatype component = LikeButton_component | ManyButtons_component

datatype element_type = Tag string | Component component

datatype attribute =
    Literal string
  | Style "(string \<times> string) list"
  | Handler "call list"
  | Index nat

datatype element =
    Text string
  | Element element_type "(string \<times> attribute) list" "element list"

fun children :: "element \<Rightarrow> element list" where
  "children (Element t attrs cs) = cs"
| "children (Text s) = []"

fun attributes :: "element \<Rightarrow> (string \<times> attribute) list" where
  "attributes (Element t attrs cs) = attrs"
| "attributes (Text s) = []"

definition onClick :: "element \<Rightarrow> call list option" where
  "onClick e = (case map_of (attributes e) ''onClick'' of Some (Handler h) \<Rightarrow> Some h | _ \<Rightarrow> None)"

definition key :: "element \<Rightarrow> nat option" where
  "key e = (case map_of (attributes e) ''key'' of Some (Index k) \<Rightarrow> Some k | _ \<Rightarrow> None)"

definition thumbs_up :: string where
  "thumbs_up = [CHR 0xF0, CHR 0x9F, CHR 0x91, CHR 0x8D]"

text \<open>The state of one \<open>LikeButton\<close> instance is what its single hook
  \<open>React.useState(false)\<close> holds.\<close>

record LikeButton_state =
  liked :: bool

definition useState :: "bool \<Rightarrow> LikeButton_state" where
  "useState initial = \<lparr>liked = initial\<rparr>"

definition LikeButton :: "LikeButton_state \<Rightarrow> element" where
  "LikeButton s =
     (if liked s then
        Element (Tag ''span'')
          [(''style'', Style [(''width'', ''150px''), (''height'', ''25px'')])]
          [Text (''Liked! '' @ thumbs_up)]
      else
        Element (Tag ''button'')
          [(''style'', Style [(''width'', ''150px''), (''height'', ''25px'')]),
           (''className'', Literal ''like-button''),
           (''onClick'', Handler [setLiked True])]
          [Text ''Click to like!''])"

text \<open>\<open>new Array(n)\<close> is an array of \<open>n\<close> holes; spreading it reads every hole as
  \<open>undefined\<close>; \<open>Array.prototype.map\<close> passes each element with its index.\<close>

definition new_Array :: "nat \<Rightarrow> js option list" where
  "new_Array n = replicate n None"

definition spread :: "js option list \<Rightarrow> js list" where
  "spread xs = map (\<lambda>x. case x of None \<Rightarrow> Undefined | Some v \<Rightarrow> v) xs"

definition array_map :: "(js \<Rightarrow> nat \<Rightarrow> 'b) \<Rightarrow> js list \<Rightarrow> 'b list" where
  "array_map f xs = map (\<lambda>(index, x). f x index) (enumerate 0 xs)"

definition ManyButtons :: element where
  "ManyButtons =
     Element (Tag ''div'')
       [(''style'', Style [(''display'', ''flex''), (''flexDirection'', ''row''), (''flexWrap'', ''wrap'')])]
       (array_map (\<lambda>_ index. Element (Component LikeButton_component) [(''key'', Index index)] [])
          (spread (new_Array 500)))"

subsection \<open>The rendering library's side\<close>

text \<open>
  What the script relies on from React: every mounted \<open>LikeButton\<close> element gets a state
  cell of its own, identified by its key and initialised by the \<open>useState\<close> argument; a
  click on an instance runs the \<open>onClick\<close> handler of what the instance currently renders,
  if it has one; a setter call replaces the value of the instance's cell.
\<close>

fun run_call :: "call \<Rightarrow> LikeButton_state \<Rightarrow> LikeButton_state" where
  "run_call (setLiked v) s = s\<lparr>liked := v\<rparr>"

definition click :: "LikeButton_state \<Rightarrow> LikeButton_state" where
  "click s = (case onClick (LikeButton s) of None \<Rightarrow> s | Some h \<Rightarrow> fold run_call h s)"

type_synonym instances = "(nat \<times> LikeButton_state) list"

fun instance_of :: "element \<Rightarrow> instances" where
  "instance_of (Element (Component LikeButton_component) attrs cs) =
     (case key (Element (Component LikeButton_component) attrs cs) of
        Some k \<Rightarrow> [(k, useState False)]
      | None \<Rightarrow> [])"
| "instance_of _ = []"

definition mount :: "element \<Rightarrow> instances" where
  "mount root = concat (map instance_of (children root))"

datatype event = Click nat

fun dispatch :: "event \<Rightarrow> instances \<Rightarrow> instances" where
  "dispatch (Click k) insts = map (\<lambda>(k', s). if k' = k then (k', click s) else (k', s)) insts"

definition liked_at :: "nat \<Rightarrow> instances \<Rightarrow> bool option" where
  "liked_at k insts = map_option liked (map_of insts k)"


section \<open>Scripts and the page they run in\<close>

text \<open>
  The scripts act on the page through the browser's interfaces. The page state keeps what
  those calls read and change: the console output, what \<open>document.querySelector\<close> finds
  for a selector (the number of a node, or nothing for \<open>null\<close>) and the selectors asked for
  so far, the component trees mounted by the rendering library, the children appended to
  \<open>document.body\<close>, the top-level constants a script declares, the modules evaluated
  so far, and the dynamic imports that have been started and whose continuation has not
  run yet. An arrow function stored as a handler or passed as a continuation is named by a
  constructor; \<open>run_handler\<close> and \<open>run_callback\<close> below give its body.
\<close>

datatype js_error = Error string

datatype handler = buttonComponent_onclick

datatype callback = buttonComponent_then

record node =
  tag :: string
  innerHTML :: string
  innerText :: string
  src :: string
  onclick :: "handler option"

record job =
  specifier :: string
  reaction :: callback

record browser =
  console :: "string list"
  selectors :: "string \<Rightarrow> nat option"
  queries :: "string list"
  roots :: "(nat \<times> element) list"
  body :: "node list"
  scope :: "(string \<times> js) list"
  evaluated :: "string list"
  pending :: "job list"

definition console_log :: "string \<Rightarrow> browser \<Rightarrow> browser" where
  "console_log s b = b\<lparr>console := console b @ [s]\<rparr>"

definition declare_const :: "string \<Rightarrow> js \<Rightarrow> browser \<Rightarrow> browser" where
  "declare_const name v b = b\<lparr>scope := scope b @ [(name, v)]\<rparr>"

definition document_createElement :: "string \<Rightarrow> node" where
  "document_createElement t = \<lparr>tag = t, innerHTML = [], innerText = [], src = [], onclick = None\<rparr>"


definition document_querySelector :: "string \<Rightarrow> browser \<Rightarrow> nat option \<times> browser" where
  "document_querySelector sel b = (selectors b sel, b\<lparr>queries := queries b @ [sel]\<rparr>)"

text \<open>\<open>ReactDOM.render\<close> (React 17) throws when its container is not a DOM element, and
  mounts the element on the container otherwise.\<close>

definition ReactDOM_render :: "element \<Rightarrow> nat option \<Rightarrow> browser \<Rightarrow> js_error + browser" where
  "ReactDOM_render e container b =
     (case container of
        None \<Rightarrow> Inl (Error ''Target container is not a DOM element.'')
      | Some n \<Rightarrow> Inr (b\<lparr>roots := roots b @ [(n, e)]\<rparr>))"



text \<open>\<open>join\<close> of lodash.\<close>

fun join :: "string list \<Rightarrow> string \<Rightarrow> string" where
  "join [] sep = []"
| "join [x] sep = x"
| "join (x # y # ys) sep = x @ sep @ join (y # ys) sep"

subsection \<open>The UI script\<close>

text \<open>The top level of \<^verbatim>\<open>react-and-jsx/script.jsx\<close>: the two component definitions
  are \<open>LikeButton\<close> and \<open>ManyButtons\<close> above; the other two statements run.\<close>

definition script_jsx :: "browser \<Rightarrow> js_error + browser" where
  "script_jsx b =
     (let (domContainer, b) = document_querySelector ''#app'' b
      in ReactDOM_render (Element (Component ManyButtons_component) [] []) domContainer b)"

subsection \<open>The bundled scripts\<close>

text \<open>\<^verbatim>\<open>webpack/the-basics/src/script.js\<close>. The function \<open>component\<close> takes no argument
  and reads nothing of the page, and is written the same in both bundled scripts.\<close>

definition component :: node where
  "component =
     (let element = document_createElement ''div'';
          element = element\<lparr>innerHTML := join [''Hello'', ''webpack''] '' ''\<rparr>
      in element)"



definition funcB :: "browser \<Rightarrow> browser" where
  "funcB b = console_log ''funcB'' b"












text \<open>A page before any script has run; \<open>found\<close> lists the selectors that name a node.\<close>

definition page :: "(string \<times> nat) list \<Rightarrow> browser" where
  "page found = \<lparr>console = [], selectors = map_of found, queries = [], roots = [], body = [],
     scope = [], evaluated = [], pending = []\<rparr>"

subsection \<open>The formatter's example\<close>

text \<open>\<^verbatim>\<open>script.js\<close> of the formatter tutorial (\<^verbatim>\<open>prettier/README.md\<close>), as written by hand
  and as the formatter leaves it. Each definition follows the statements of its own text.\<close>

definition unformatted_script :: "browser \<Rightarrow> browser" where
  "unformatted_script b =
     (let b = console_log ''hello world'' b;
          b = (if True then console_log ''this always runs'' b else b);
          b = declare_const ''exampleArray'' (Arr [Num 1, Num 2, Num 3, Num 4,
                 Num 5, Num 6, Num 7, Num 8,
                 Num 9, Num 10]) b
      in b)"

definition formatted_script :: "browser \<Rightarrow> browser" where
  "formatted_script b =
     (let b = console_log ''hello world'' b;
          b = (if True then console_log ''this always runs'' b else b);
          b = declare_const ''exampleArray''
                (Arr [Num 1, Num 2, Num 3, Num 4, Num 5, Num 6, Num 7, Num 8, Num 9, Num 10]) b
      in b)"


section \<open>Facts about the embedding\<close>


lemma array_map_spread_new_Array:
  "array_map (\<lambda>_ index. g index) (spread (new_Array n)) = map g [0..<n]"
proof -
  have "array_map (\<lambda>_ index. g index) (spread (new_Array n))
      = map (g \<circ> fst) (zip [0..<n] (replicate n Undefined))"
    by (simp add: array_map_def spread_def new_Array_def enumerate_eq_zip comp_def case_prod_unfold)
  also have "\<dots> = map g (map fst (zip [0..<n] (replicate n Undefined)))"
    by (simp only: map_map)
  also have "\<dots> = map g [0..<n]"
    by (simp only: map_fst_zip length_upt length_replicate diff_zero)
  finally show ?thesis .
qed

lemma children_ManyButtons:
  "children ManyButtons =
     map (\<lambda>index. Element (Component LikeButton_component) [(''key'', Index index)] []) [0..<500]"
  unfolding ManyButtons_def by (simp only: children.simps array_map_spread_new_Array)

lemma mount_ManyButtons: "mount ManyButtons = map (\<lambda>k. (k, \<lparr>liked = False\<rparr>)) [0..<500]"
  unfolding mount_def children_ManyButtons
  by (simp add: key_def useState_def comp_def del: upt.simps)

lemma liked_at_map_upt:
  "liked_at k (map (\<lambda>k. (k, s)) [0..<n]) = (if k < n then Some (liked s) else None)"
  by (simp add: liked_at_def map_of_map_restrict restrict_map_def)

lemma onClick_LikeButton:
  "onClick (LikeButton s) = (if liked s then None else Some [setLiked True])"
  by (simp add: onClick_def LikeButton_def)

lemma click_eq: "click s = s\<lparr>liked := True\<rparr>"
  by (cases s) (simp add: click_def onClick_LikeButton)

lemma liked_at_dispatch:
  "liked_at j (dispatch (Click k) insts) =
     (if j = k then map_option (\<lambda>_. True) (liked_at j insts) else liked_at j insts)"
  by (induction insts) (auto simp: liked_at_def click_eq)

lemma liked_stays:
  "liked_at k insts = Some True \<Longrightarrow> liked_at k (fold dispatch evs insts) = Some True"
proof (induction evs arbitrary: insts)
  case Nil
  then show ?case by simp
next
  case (Cons e evs)
  obtain j where e: "e = Click j" by (cases e)
  have "liked_at k (dispatch e insts) = Some True"
    using Cons.prems unfolding e liked_at_dispatch by auto
  then show ?case using Cons.IH by simp
qed

lemma liked_at_first_click:
  "k < 500 \<Longrightarrow> liked_at k (fold dispatch [Click k] (mount ManyButtons)) = Some True"
  by (simp add: liked_at_dispatch mount_ManyButtons liked_at_map_upt del: dispatch.simps upt.simps)








section \<open>Properties of the snippets\<close>


text \<open>
  C2. The formatter's example: the script as written by hand and the script as the
  formatter leaves it do the same from every starting state. Both print "hello world" and
  then "this always runs", and both bind \<open>exampleArray\<close> to the array of 1 to 10.
\<close>

theorem formatter_keeps_behaviour:
  "unformatted_script b = formatted_script b
   \<and> console (unformatted_script b) = console b @ [''hello world'', ''this always runs'']
   \<and> console (formatted_script b) = console b @ [''hello world'', ''this always runs'']
   \<and> scope (unformatted_script b) = scope b @
         [(''exampleArray'', Arr [Num 1, Num 2, Num 3, Num 4, Num 5, Num 6, Num 7, Num 8, Num 9, Num 10])]
   \<and> scope (formatted_script b) = scope b @
         [(''exampleArray'', Arr [Num 1, Num 2, Num 3, Num 4, Num 5, Num 6, Num 7, Num 8, Num 9, Num 10])]"
  by (simp add: unformatted_script_def formatted_script_def console_log_def declare_const_def)



text \<open>
  C4. On a page that has the node \<open>#app\<close>, the UI script asks the document exactly one
  question, for \<open>#app\<close>, and calls the rendering library exactly once, mounting the
  \<open>ManyButtons\<close> element on the node that the question returned. The components
  themselves are values and functions of their state only: they never see the page.
\<close>

theorem render_once_on_queried_node:
  "selectors b ''#app'' = Some n \<Longrightarrow>
     script_jsx b = Inr (b\<lparr>queries := queries b @ [''#app''],
                          roots := roots b @ [(n, Element (Component ManyButtons_component) [] [])]\<rparr>)"
  by (simp add: script_jsx_def document_querySelector_def ReactDOM_render_def)

text \<open>The same on a fresh page whose node \<open>#app\<close> has number 0.\<close>

theorem render_once_on_queried_node_witness:
  "selectors (page [(''#app'', 0)]) ''#app'' = Some 0
   \<and> script_jsx (page [(''#app'', 0)]) =
       Inr ((page [(''#app'', 0)])\<lparr>queries := [''#app''],
              roots := [(0, Element (Component ManyButtons_component) [] [])]\<rparr>)"
proof -
  have found: "selectors (page [(''#app'', 0)]) ''#app'' = Some 0"
    by (simp add: page_def)
  show ?thesis
    using found render_once_on_queried_node [OF found] by (simp add: page_def)
qed



text \<open>
  C6. The formatter's configuration file sets no line width (the formatter's
  \<open>printWidth\<close> option).
\<close>

theorem prettierrc_no_line_width:
  "get ''printWidth'' prettierrc = None"
  by (simp add: prettierrc_def)

text \<open>
  C6, as it holds. The formatter's configuration file specifies exactly four style options:
  trailing commas (\<open>es5\<close>), tab width (2), semicolons (on) and quote style (single quotes);
  it specifies no line width. A separate ignore file lists the two path patterns
  \<^verbatim>\<open>build\<close> and \<^verbatim>\<open>*.css\<close> to leave unformatted.
\<close>

theorem formatter_configuration:
  "option_names prettierrc = [''trailingComma'', ''tabWidth'', ''semi'', ''singleQuote'']
   \<and> get ''trailingComma'' prettierrc = Some (Str ''es5'')
   \<and> get ''tabWidth'' prettierrc = Some (Num 2)
   \<and> get ''semi'' prettierrc = Some (Bool True)
   \<and> get ''singleQuote'' prettierrc = Some (Bool True)
   \<and> \<not> specifies prettierrc ''printWidth''
   \<and> ignored_patterns prettierignore = [''build'', ''*.css'']"
  by (simp add: prettierrc_def option_names_def specifies_def ignored_patterns_def
      prettierignore_def newline_def)



text \<open>
  C8. \<open>ManyButtons\<close> returns one \<open>div\<close> whose children are exactly 500 \<open>LikeButton\<close>
  elements with the keys 0 to 499 in increasing order. Mounted, each child has a state
  cell of its own, not liked at first, and a click on one child leaves the state of every
  other child as it was.
\<close>

theorem ManyButtons_children:
  "ManyButtons =
     Element (Tag ''div'')
       [(''style'', Style [(''display'', ''flex''), (''flexDirection'', ''row''), (''flexWrap'', ''wrap'')])]
       (map (\<lambda>index. Element (Component LikeButton_component) [(''key'', Index index)] []) [0..<500])
   \<and> length (children ManyButtons) = 500
   \<and> map key (children ManyButtons) = map Some [0..<500]
   \<and> mount ManyButtons = map (\<lambda>k. (k, \<lparr>liked = False\<rparr>)) [0..<500]
   \<and> (j \<noteq> k \<longrightarrow> liked_at j (dispatch (Click k) insts) = liked_at j insts)"
proof (intro conjI)
  show "ManyButtons =
     Element (Tag ''div'')
       [(''style'', Style [(''display'', ''flex''), (''flexDirection'', ''row''), (''flexWrap'', ''wrap'')])]
       (map (\<lambda>index. Element (Component LikeButton_component) [(''key'', Index index)] []) [0..<500])"
    unfolding ManyButtons_def by (simp only: array_map_spread_new_Array)
  show "length (children ManyButtons) = 500"
    by (simp only: children_ManyButtons length_map length_upt diff_zero)
  show "map key (children ManyButtons) = map Some [0..<500]"
    unfolding children_ManyButtons by (simp add: key_def comp_def del: upt.simps)
  show "mount ManyButtons = map (\<lambda>k. (k, \<lparr>liked = False\<rparr>)) [0..<500]"
    by (rule mount_ManyButtons)
  show "j \<noteq> k \<longrightarrow> liked_at j (dispatch (Click k) insts) = liked_at j insts"
    unfolding liked_at_dispatch by simp
qed

text \<open>A click on the first button of the mounted page likes it and leaves the second
  button not liked.\<close>

theorem ManyButtons_children_witness:
  "(1::nat) \<noteq> 0
   \<and> liked_at 1 (dispatch (Click 0) (mount ManyButtons)) = liked_at 1 (mount ManyButtons)
   \<and> liked_at 1 (dispatch (Click 0) (mount ManyButtons)) = Some False
   \<and> liked_at 0 (dispatch (Click 0) (mount ManyButtons)) = Some True"
proof -
  have distinct: "(1::nat) \<noteq> 0" by simp
  have same: "liked_at 1 (dispatch (Click 0) (mount ManyButtons)) = liked_at 1 (mount ManyButtons)"
    using ManyButtons_children [of 1 0 "mount ManyButtons"] distinct by blast
  have before: "liked_at 1 (mount ManyButtons) = Some False"
    by (simp add: mount_ManyButtons liked_at_map_upt del: upt.simps)
  have clicked: "liked_at 0 (dispatch (Click 0) (mount ManyButtons)) = Some True"
    using liked_at_first_click [of 0] by simp
  from distinct same before clicked show ?thesis by simp
qed

text \<open>
  C9. Liking is monotone. On the mounted page, for every sequence of clicks after which the
  button with key \<open>k\<close> is liked, it is still liked after any further clicks. A click never
  takes an instance from liked to not liked, and no handler that \<open>LikeButton\<close> renders
  calls the setter with false.
\<close>

theorem liked_is_monotone:
  "(liked_at k (fold dispatch evs (mount ManyButtons)) = Some True \<longrightarrow>
      liked_at k (fold dispatch (evs @ later) (mount ManyButtons)) = Some True)
   \<and> (liked s \<longrightarrow> liked (click s))
   \<and> setLiked False \<notin> set (case onClick (LikeButton s) of None \<Rightarrow> [] | Some h \<Rightarrow> h)"
  by (simp add: liked_stays click_eq onClick_LikeButton)

text \<open>Button 3 is liked after one click on it, and still after a second click on it and a
  click on button 7.\<close>

theorem liked_is_monotone_witness:
  "liked_at 3 (fold dispatch [Click 3] (mount ManyButtons)) = Some True
   \<and> liked_at 3 (fold dispatch ([Click 3] @ [Click 3, Click 7]) (mount ManyButtons)) = Some True
   \<and> liked \<lparr>liked = True\<rparr> \<and> liked (click \<lparr>liked = True\<rparr>)"
proof -
  have first: "liked_at 3 (fold dispatch [Click 3] (mount ManyButtons)) = Some True"
    by (rule liked_at_first_click) simp
  have later: "liked_at 3 (fold dispatch ([Click 3] @ [Click 3, Click 7]) (mount ManyButtons)) = Some True"
    using liked_is_monotone [of 3 "[Click 3]" "[Click 3, Click 7]"] first by blast
  have "liked (click \<lparr>liked = True\<rparr>)"
    using liked_is_monotone [of _ _ _ "\<lparr>liked = True\<rparr>"] by simp
  with first later show ?thesis by simp
qed

text \<open>
  C10. In the multi-entry configuration every \<open>dependOn\<close> value names a key of the same
  entry object, other than the entry's own: those values are \<open>shared\<close>, for the entries
  \<open>script\<close> and \<open>page2\<close>. Every chunk name that the two HTML plugin instances list
  (\<open>script\<close>, \<open>page2\<close>, \<open>shared\<close>) is a key of the entry object too.
\<close>

theorem entry_graph_closed:
  "(\<forall>(k, d) \<in> set (entry_dependencies loaders_optimizations_config).
      d \<in> set (entry_keys loaders_optimizations_config) \<and> d \<noteq> k)
   \<and> (\<forall>c \<in> set (html_chunks loaders_optimizations_config).
      c \<in> set (entry_keys loaders_optimizations_config))
   \<and> entry_dependencies loaders_optimizations_config = [(''script'', ''shared''), (''page2'', ''shared'')]
   \<and> set (html_chunks loaders_optimizations_config) = {''script'', ''page2'', ''shared''}"
  by (auto simp add: entry_dependencies_def entry_keys_def html_chunks_def plugin_list_def
      depends_def elements_def loaders_optimizations_config_def)

text \<open>The entry \<open>script\<close> depends on \<open>shared\<close>, which is a key; the chunk \<open>page2\<close> is a
  key.\<close>

theorem entry_graph_closed_witness:
  "(''script'', ''shared'') \<in> set (entry_dependencies loaders_optimizations_config)
   \<and> ''shared'' \<in> set (entry_keys loaders_optimizations_config)
   \<and> ''shared'' \<noteq> ''script''
   \<and> ''page2'' \<in> set (html_chunks loaders_optimizations_config)
   \<and> ''page2'' \<in> set (entry_keys loaders_optimizations_config)"
proof -
  note closed = entry_graph_closed
  have dep: "(''script'', ''shared'') \<in> set (entry_dependencies loaders_optimizations_config)"
    using closed by simp
  have chunk: "''page2'' \<in> set (html_chunks loaders_optimizations_config)"
    using closed by simp
  from closed dep have "''shared'' \<in> set (entry_keys loaders_optimizations_config) \<and> ''shared'' \<noteq> ''script''"
    by blast
  moreover from closed chunk have "''page2'' \<in> set (entry_keys loaders_optimizations_config)"
    by blast
  ultimately show ?thesis using dep chunk by simp
qed

end
